theory Spec2Isabelle
  imports Main "HOL-Library.Word" "HOL-Library.Char_ord" "HOL-Library.List_Lexorder" "HOL-Library.Sublist"
begin

section \<open>Protocol types and errors\<close>

text \<open>
  Byte slices and Go strings are \<open>string\<close> (a list of 8-bit characters).

  A Go \<open>float64\<close> is modelled by the decimal number it prints as: a mantissa and a decimal
  exponent, kept normalised (the mantissa is not divisible by 10, and zero is \<open>Float64 0 0\<close>).
  \<open>strconv.ParseFloat\<close> rounds a literal of more than 17 significant digits to the nearest
  double; the model keeps the exact decimal value, which is the same number for every literal
  that Go itself prints.
\<close>

datatype float64 = Float64 (mant: int) (dexp: int)

text \<open>
  The dynamic values an \<open>interface{}\<close> field holds. The first six constructors are the
  values \<open>encoding/json\<close> stores when it decodes into an empty interface; \<open>VInt\<close> and
  \<open>VUint64\<close> are Go integers a caller may put there (the client stores its \<open>uint64\<close>
  sequence number in \<open>Request.ID\<close>); \<open>VChan\<close> stands for a value \<open>encoding/json\<close>
  refuses to marshal (a channel or a function).
\<close>

datatype goval =
    VNil
  | VBool bool
  | VFloat64 float64
  | VString string
  | VSlice "goval list"
  | VMap "(string \<times> goval) list"
  | VInt int
  | VUint64 nat
  | VChan

record Error =
  Code :: int
  Message :: string
  Data :: goval

definition ErrCodeParse :: int where "ErrCodeParse = - 32700"
definition ErrCodeInvalidRequest :: int where "ErrCodeInvalidRequest = - 32600"
definition ErrCodeMethodNotFound :: int where "ErrCodeMethodNotFound = - 32601"
definition ErrCodeInvalidParams :: int where "ErrCodeInvalidParams = - 32602"
definition ErrCodeInternal :: int where "ErrCodeInternal = - 32603"

definition ErrMsgParse :: string where "ErrMsgParse = ''Parse error''"
definition ErrMsgInvalidRequest :: string where "ErrMsgInvalidRequest = ''Invalid Request''"
definition ErrMsgMethodNotFound :: string where "ErrMsgMethodNotFound = ''Method not found''"
definition ErrMsgInvalidParams :: string where "ErrMsgInvalidParams = ''Invalid params''"
definition ErrMsgInternal :: string where "ErrMsgInternal = ''Internal error''"

definition NewError :: "int \<Rightarrow> string \<Rightarrow> goval \<Rightarrow> Error" where
  "NewError code message data = \<lparr>Code = code, Message = message, Data = data\<rparr>"

definition NewParseError :: "goval \<Rightarrow> Error" where
  "NewParseError data = NewError ErrCodeParse ErrMsgParse data"

definition NewInvalidRequestError :: "goval \<Rightarrow> Error" where
  "NewInvalidRequestError data = NewError ErrCodeInvalidRequest ErrMsgInvalidRequest data"

definition NewMethodNotFoundError :: "string \<Rightarrow> Error" where
  "NewMethodNotFoundError method = NewError ErrCodeMethodNotFound ErrMsgMethodNotFound (VString method)"

definition NewInvalidParamsError :: "goval \<Rightarrow> Error" where
  "NewInvalidParamsError data = NewError ErrCodeInvalidParams ErrMsgInvalidParams data"

definition NewInternalError :: "goval \<Rightarrow> Error" where
  "NewInternalError data = NewError ErrCodeInternal ErrMsgInternal data"

definition JSONRPCVersion :: string where "JSONRPCVersion = ''2.0''"



section \<open>The JSON library (encoding/json)\<close>

definition byteChar :: "nat \<Rightarrow> char" where
  "byteChar n = Char (odd n) (odd (n div 2)) (odd (n div 4)) (odd (n div 8))
     (odd (n div 16)) (odd (n div 32)) (odd (n div 64)) (odd (n div 128))"

datatype json =
    JNull
  | JBool bool
  | JNumber string
  | JString string
  | JArray "json list"
  | JObject "(string \<times> json) list"

definition isSpace :: "char \<Rightarrow> bool" where
  "isSpace c = (c = CHR '' '' \<or> c = CHR 0x09 \<or> c = CHR 0x0D \<or> c = CHR 0x0A)"

definition skipSpace :: "string \<Rightarrow> string" where
  "skipSpace s = dropWhile isSpace s"

definition isDigit :: "char \<Rightarrow> bool" where
  "isDigit c = (CHR ''0'' \<le> c \<and> c \<le> CHR ''9'')"

definition isHex :: "char \<Rightarrow> bool" where
  "isHex c = (isDigit c \<or> (CHR ''a'' \<le> c \<and> c \<le> CHR ''f'') \<or> (CHR ''A'' \<le> c \<and> c \<le> CHR ''F''))"

text \<open>The body of a string literal, after the opening quote: the raw body and the rest after the closing quote.\<close>

fun scanString :: "string \<Rightarrow> (string \<times> string) option" where
  "scanString [] = None"
| "scanString (c # cs) =
     (if c = CHR 0x22 then Some ([], cs)
      else if c = CHR 0x5C then
        (case cs of
           [] \<Rightarrow> None
         | e # cs' \<Rightarrow>
             if e \<in> set [CHR 0x22, CHR 0x5C, CHR ''/'', CHR ''b'', CHR ''f'', CHR ''n'', CHR ''r'', CHR ''t''] then
               (case scanString cs' of None \<Rightarrow> None | Some (body, rest) \<Rightarrow> Some (c # e # body, rest))
             else if e = CHR ''u'' \<and> length cs' \<ge> 4 \<and> list_all isHex (take 4 cs') then
               (case scanString (drop 4 cs') of
                  None \<Rightarrow> None
                | Some (body, rest) \<Rightarrow> Some (c # e # take 4 cs' @ body, rest))
             else None)
      else if c < CHR 0x20 then None
      else (case scanString cs of None \<Rightarrow> None | Some (body, rest) \<Rightarrow> Some (c # body, rest)))"

definition scanExp :: "string \<Rightarrow> string \<Rightarrow> (string \<times> string) option" where
  "scanExp lit s =
     (case s of
        [] \<Rightarrow> Some (lit, [])
      | e # r \<Rightarrow>
          if e = CHR ''e'' \<or> e = CHR ''E'' then
            (let sg = (case r of [] \<Rightarrow> [] | g # r' \<Rightarrow> if g = CHR ''+'' \<or> g = CHR ''-'' then [g] else []);
                 r1 = drop (length sg) r;
                 ds = takeWhile isDigit r1
             in if ds = [] then None else Some (lit @ e # sg @ ds, dropWhile isDigit r1))
          else Some (lit, s))"

definition scanFrac :: "string \<Rightarrow> string \<Rightarrow> (string \<times> string) option" where
  "scanFrac lit s =
     (case s of
        [] \<Rightarrow> Some (lit, [])
      | p # r \<Rightarrow>
          if p = CHR ''.'' then
            (let ds = takeWhile isDigit r
             in if ds = [] then None else scanExp (lit @ p # ds) (dropWhile isDigit r))
          else scanExp lit s)"

definition scanNumber :: "string \<Rightarrow> (string \<times> string) option" where
  "scanNumber s =
     (let sg = (case s of [] \<Rightarrow> [] | g # r \<Rightarrow> if g = CHR ''-'' then [g] else []);
          s1 = drop (length sg) s
      in case s1 of
           [] \<Rightarrow> None
         | c # r \<Rightarrow>
             if c = CHR ''0'' then scanFrac (sg @ [c]) r
             else if isDigit c then scanFrac (sg @ c # takeWhile isDigit r) (dropWhile isDigit r)
             else None)"

definition maxNestingDepth :: nat where "maxNestingDepth = 10000"


definition byteAt :: "string \<Rightarrow> nat \<Rightarrow> nat" where
  "byteAt s i = (if i < length s then of_char (s ! i) else 0)"

definition isCont :: "nat \<Rightarrow> bool" where
  "isCont b = (0x80 \<le> b \<and> b \<le> 0xBF)"

text \<open>
  \<open>utf8Len s\<close> is the size \<open>utf8.DecodeRune\<close> reports when \<open>s\<close> starts with a valid
  encoding, and 0 when it reports \<open>RuneError\<close> with size 1.
\<close>

definition utf8Len :: "string \<Rightarrow> nat" where
  "utf8Len s =
     (let b0 = byteAt s 0; b1 = byteAt s 1; b2 = byteAt s 2; b3 = byteAt s 3 in
      if s = [] then 0
      else if b0 < 0x80 then 1
      else if 0xC2 \<le> b0 \<and> b0 \<le> 0xDF then (if isCont b1 then 2 else 0)
      else if b0 = 0xE0 then (if 0xA0 \<le> b1 \<and> b1 \<le> 0xBF \<and> isCont b2 then 3 else 0)
      else if b0 = 0xED then (if 0x80 \<le> b1 \<and> b1 \<le> 0x9F \<and> isCont b2 then 3 else 0)
      else if 0xE1 \<le> b0 \<and> b0 \<le> 0xEF then (if isCont b1 \<and> isCont b2 then 3 else 0)
      else if b0 = 0xF0 then (if 0x90 \<le> b1 \<and> b1 \<le> 0xBF \<and> isCont b2 \<and> isCont b3 then 4 else 0)
      else if b0 = 0xF4 then (if 0x80 \<le> b1 \<and> b1 \<le> 0x8F \<and> isCont b2 \<and> isCont b3 then 4 else 0)
      else if 0xF1 \<le> b0 \<and> b0 \<le> 0xF3 then (if isCont b1 \<and> isCont b2 \<and> isCont b3 then 4 else 0)
      else 0)"

definition replacementChar :: string where
  "replacementChar = [CHR 0xEF, CHR 0xBF, CHR 0xBD]"

text \<open>\<open>utf8.EncodeRune\<close> (\<open>utf8.AppendRune\<close>): a surrogate or a value above U+10FFFF is written as U+FFFD.\<close>

definition encodeRune :: "nat \<Rightarrow> string" where
  "encodeRune r =
     (if r < 0x80 then [byteChar r]
      else if r < 0x800 then [byteChar (0xC0 + r div 64), byteChar (0x80 + r mod 64)]
      else if (0xD800 \<le> r \<and> r < 0xE000) \<or> r > 0x10FFFF then replacementChar
      else if r < 0x10000 then
        [byteChar (0xE0 + r div 4096), byteChar (0x80 + r div 64 mod 64), byteChar (0x80 + r mod 64)]
      else
        [byteChar (0xF0 + r div 262144), byteChar (0x80 + r div 4096 mod 64),
         byteChar (0x80 + r div 64 mod 64), byteChar (0x80 + r mod 64)])"

definition hexVal :: "char \<Rightarrow> nat" where
  "hexVal c =
     (if isDigit c then of_char c - 48
      else if CHR ''a'' \<le> c \<and> c \<le> CHR ''f'' then of_char c - 87
      else of_char c - 55)"

text \<open>\<open>getu4\<close>: the rune of a leading \<open>\uXXXX\<close>, or \<open>None\<close> (Go's -1).\<close>

definition getu4 :: "string \<Rightarrow> nat option" where
  "getu4 s =
     (if length s < 6 \<or> s ! 0 \<noteq> CHR 0x5C \<or> s ! 1 \<noteq> CHR ''u'' \<or> \<not> list_all isHex (take 4 (drop 2 s)) then None
      else Some (hexVal (s ! 2) * 4096 + hexVal (s ! 3) * 256 + hexVal (s ! 4) * 16 + hexVal (s ! 5)))"

definition unescape :: "char \<Rightarrow> char" where
  "unescape e =
     (if e = CHR ''b'' then CHR 0x08
      else if e = CHR ''f'' then CHR 0x0C
      else if e = CHR ''n'' then CHR 0x0A
      else if e = CHR ''r'' then CHR 0x0D
      else if e = CHR ''t'' then CHR 0x09
      else e)"

text \<open>
  \<open>unquote\<close>: the bytes a string literal's body denotes (\<open>unquoteBytes\<close>). The body has
  passed the scanner, so the branch for a malformed escape is not reached.
\<close>

function unquote :: "string \<Rightarrow> string" where
  "unquote s =
     (case s of
        [] \<Rightarrow> []
      | c # cs \<Rightarrow>
          if c = CHR 0x5C then
            (case cs of
               [] \<Rightarrow> []
             | e # cs' \<Rightarrow>
                 if e = CHR ''u'' then
                   (case getu4 s of
                      None \<Rightarrow> []
                    | Some rr \<Rightarrow>
                        if 0xD800 \<le> rr \<and> rr < 0xE000 then
                          (case getu4 (drop 6 s) of
                             None \<Rightarrow> replacementChar @ unquote (drop 6 s)
                           | Some rr1 \<Rightarrow>
                               if rr < 0xDC00 \<and> 0xDC00 \<le> rr1 \<and> rr1 < 0xE000
                               then encodeRune ((rr - 0xD800) * 1024 + (rr1 - 0xDC00) + 0x10000) @ unquote (drop 12 s)
                               else replacementChar @ unquote (drop 6 s))
                        else encodeRune rr @ unquote (drop 6 s))
                 else unescape e # unquote cs')
          else if c < CHR 0x80 then c # unquote cs
          else if utf8Len s = 0 then replacementChar @ unquote cs
          else take (utf8Len s) s @ unquote (drop (utf8Len s) s))"
  by pat_completeness auto
termination
  by (relation "measure length") (auto simp: getu4_def split: if_splits)

declare unquote.simps [simp del]

definition htmlSafe :: "char \<Rightarrow> bool" where
  "htmlSafe c = (CHR 0x20 \<le> c \<and> c < CHR 0x80 \<and>
     c \<noteq> CHR 0x22 \<and> c \<noteq> CHR ''&'' \<and> c \<noteq> CHR ''<'' \<and> c \<noteq> CHR ''>'' \<and> c \<noteq> CHR 0x5C)"

definition hexDigit :: "nat \<Rightarrow> char" where
  "hexDigit n = (if n mod 16 < 10 then byteChar (48 + n mod 16) else byteChar (87 + n mod 16))"

text \<open>\<open>appendString\<close> with HTML escaping on, as \<open>json.Encoder\<close> and \<open>json.Marshal\<close> call it.\<close>

function quoteBody :: "string \<Rightarrow> string" where
  "quoteBody s =
     (case s of
        [] \<Rightarrow> []
      | c # cs \<Rightarrow>
          if c < CHR 0x80 then
            (if htmlSafe c then c # quoteBody cs
             else if c = CHR 0x5C \<or> c = CHR 0x22 then CHR 0x5C # c # quoteBody cs
             else if c = CHR 0x08 then CHR 0x5C # CHR ''b'' # quoteBody cs
             else if c = CHR 0x0C then CHR 0x5C # CHR ''f'' # quoteBody cs
             else if c = CHR 0x0A then CHR 0x5C # CHR ''n'' # quoteBody cs
             else if c = CHR 0x0D then CHR 0x5C # CHR ''r'' # quoteBody cs
             else if c = CHR 0x09 then CHR 0x5C # CHR ''t'' # quoteBody cs
             else [CHR 0x5C, CHR ''u'', CHR ''0'', CHR ''0'', hexDigit (of_char c div 16), hexDigit (of_char c mod 16)]
                  @ quoteBody cs)
          else if utf8Len s = 0 then [CHR 0x5C, CHR ''u'', CHR ''f'', CHR ''f'', CHR ''f'', CHR ''d''] @ quoteBody cs
          else if take 3 s = [CHR 0xE2, CHR 0x80, CHR 0xA8] then
            [CHR 0x5C, CHR ''u'', CHR ''2'', CHR ''0'', CHR ''2'', CHR ''8''] @ quoteBody (drop 3 s)
          else if take 3 s = [CHR 0xE2, CHR 0x80, CHR 0xA9] then
            [CHR 0x5C, CHR ''u'', CHR ''2'', CHR ''0'', CHR ''2'', CHR ''9''] @ quoteBody (drop 3 s)
          else take (utf8Len s) s @ quoteBody (drop (utf8Len s) s))"
  by pat_completeness auto
termination
  by (relation "measure length") auto

declare quoteBody.simps [simp del]

definition quote :: "string \<Rightarrow> string" where
  "quote s = CHR 0x22 # quoteBody s @ [CHR 0x22]"


lemma length_skipSpace: "length (skipSpace s) \<le> length s"
  by (simp add: skipSpace_def length_dropWhile_le)

lemma skipSpace_Cons_length: "skipSpace s = c # r \<Longrightarrow> length r < length s"
  using length_skipSpace[of s] by simp

function parseValue :: "nat \<Rightarrow> string \<Rightarrow> (json \<times> string) option"
  and parseElems :: "nat \<Rightarrow> string \<Rightarrow> (json list \<times> string) option"
  and parseMembers :: "nat \<Rightarrow> string \<Rightarrow> ((string \<times> json) list \<times> string) option" where
  "parseValue d s =
     (case s of
        [] \<Rightarrow> None
      | c # r \<Rightarrow>
          if c = CHR ''{'' then
            (if d + 1 > maxNestingDepth then None
             else if (case skipSpace r of [] \<Rightarrow> False | c' # r' \<Rightarrow> c' = CHR ''}'') then Some (JObject [], tl (skipSpace r))
             else (case parseMembers (d + 1) (skipSpace r) of
                     None \<Rightarrow> None
                   | Some (ms, rest) \<Rightarrow> Some (JObject ms, rest)))
          else if c = CHR ''['' then
            (if d + 1 > maxNestingDepth then None
             else if (case skipSpace r of [] \<Rightarrow> False | c' # r' \<Rightarrow> c' = CHR '']'') then Some (JArray [], tl (skipSpace r))
             else (case parseElems (d + 1) (skipSpace r) of
                     None \<Rightarrow> None
                   | Some (vs, rest) \<Rightarrow> Some (JArray vs, rest)))
          else if c = CHR 0x22 then
            (case scanString r of None \<Rightarrow> None | Some (body, rest) \<Rightarrow> Some (JString (unquote body), rest))
          else if take 4 s = ''true'' then Some (JBool True, drop 4 s)
          else if take 5 s = ''false'' then Some (JBool False, drop 5 s)
          else if take 4 s = ''null'' then Some (JNull, drop 4 s)
          else (case scanNumber s of None \<Rightarrow> None | Some (lit, rest) \<Rightarrow> Some (JNumber lit, rest)))"
| "parseElems d s =
     (case parseValue d s of
        None \<Rightarrow> None
      | Some (v, r) \<Rightarrow>
          if length r < length s then
            (case skipSpace r of
               [] \<Rightarrow> None
             | c # r' \<Rightarrow>
                 if c = CHR '','' then
                   (case parseElems d (skipSpace r') of
                      None \<Rightarrow> None
                    | Some (vs, rest) \<Rightarrow> Some (v # vs, rest))
                 else if c = CHR '']'' then Some ([v], r')
                 else None)
          else None)"
| "parseMembers d s =
     (case s of
        [] \<Rightarrow> None
      | q # r \<Rightarrow>
          if q = CHR 0x22 then
            (case scanString r of
               None \<Rightarrow> None
             | Some (key, r1) \<Rightarrow>
                 if length r1 < length s then
                 (case skipSpace r1 of
                    [] \<Rightarrow> None
                  | c # r2 \<Rightarrow>
                      if c = CHR '':'' then
                        (case parseValue d (skipSpace r2) of
                           None \<Rightarrow> None
                         | Some (v, r3) \<Rightarrow>
                             if length r3 < length (skipSpace r2) then
                               (case skipSpace r3 of
                                  [] \<Rightarrow> None
                                | c' # r4 \<Rightarrow>
                                    if c' = CHR '','' then
                                      (case parseMembers d (skipSpace r4) of
                                         None \<Rightarrow> None
                                       | Some (ms, rest) \<Rightarrow> Some ((unquote key, v) # ms, rest))
                                    else if c' = CHR ''}'' then Some ([(unquote key, v)], r4)
                                    else None)
                             else None)
                      else None)
                 else None)
          else None)"
  by pat_completeness auto

termination
proof (relation "measure (\<lambda>x. case x of
          Inl (d, s) \<Rightarrow> 2 * length s
        | Inr (Inl (d, s)) \<Rightarrow> 2 * length s + 1
        | Inr (Inr (d, s)) \<Rightarrow> 2 * length s + 1)", goal_cases)
  case 1
  then show ?case by simp
next
  case (2 d s c r)
  then show ?case using length_skipSpace[of r] by simp
next
  case (3 d s c r)
  then show ?case using length_skipSpace[of r] by simp
next
  case (4 d s)
  then show ?case by simp
next
  case (5 d s x2 v r c r')
  then show ?case using skipSpace_Cons_length[of r c r'] length_skipSpace[of r'] by simp
next
  case (6 d s q r x2 key r1 c r2)
  then show ?case using skipSpace_Cons_length[of r1 c r2] length_skipSpace[of r2] by simp
next
  case (7 d s q r x2 key r1 c r2 x2a v r3 c' r4)
  then show ?case
    using skipSpace_Cons_length[of r1 c r2] length_skipSpace[of r2]
      skipSpace_Cons_length[of r3 c' r4] length_skipSpace[of r4] by simp
qed

declare parseValue.simps parseElems.simps parseMembers.simps [simp del]


subsection \<open>Numbers\<close>

function showNat :: "nat \<Rightarrow> string" where
  "showNat n = (if n < 10 then [byteChar (48 + n)] else showNat (n div 10) @ [byteChar (48 + n mod 10)])"
  by pat_completeness auto
termination
  by (relation "measure id") auto

declare showNat.simps [simp del]

definition showInt :: "int \<Rightarrow> string" where
  "showInt i = (if i < 0 then CHR ''-'' # showNat (nat (- i)) else showNat (nat i))"

definition digitsVal :: "string \<Rightarrow> nat" where
  "digitsVal ds = foldl (\<lambda>a c. 10 * a + (of_char c - 48)) 0 ds"

function stripTens :: "nat \<Rightarrow> int \<Rightarrow> nat \<times> int" where
  "stripTens m e = (if m \<noteq> 0 \<and> m mod 10 = 0 then stripTens (m div 10) (e + 1) else (m, e))"
  by pat_completeness auto
termination
  by (relation "measure fst") auto

declare stripTens.simps [simp del]

definition mkFloat64 :: "bool \<Rightarrow> nat \<Rightarrow> int \<Rightarrow> float64" where
  "mkFloat64 neg m e =
     (if m = 0 then Float64 0 0
      else Float64 (if neg then - int (fst (stripTens m e)) else int (fst (stripTens m e)))
                   (snd (stripTens m e)))"

text \<open>
  \<open>strconv.ParseFloat\<close> on a JSON number literal: \<open>None\<close> is its range error, for a
  magnitude of \<open>2 ^ 1024 - 2 ^ 970\<close> (the largest double plus half a unit in the last
  place) or more.
\<close>

definition ParseFloat :: "string \<Rightarrow> float64 option" where
  "ParseFloat lit =
     (let neg = (take 1 lit = ''-'');
          s1 = (if neg then drop 1 lit else lit);
          ip = takeWhile isDigit s1;
          s2 = dropWhile isDigit s1;
          fp = (if take 1 s2 = ''.'' then takeWhile isDigit (drop 1 s2) else []);
          s3 = (if take 1 s2 = ''.'' then dropWhile isDigit (drop 1 s2) else s2);
          ex = (if s3 = [] then 0
                else if take 1 (drop 1 s3) = ''-'' then - int (digitsVal (drop 2 s3))
                else if take 1 (drop 1 s3) = ''+'' then int (digitsVal (drop 2 s3))
                else int (digitsVal (drop 1 s3)));
          m = digitsVal (ip @ fp);
          e = ex - int (length fp)
      in if (if e \<ge> 0 then int m * 10 ^ nat e \<ge> 2 ^ 1024 - 2 ^ 970
             else int m \<ge> (2 ^ 1024 - 2 ^ 970) * 10 ^ nat (- e))
         then None
         else Some (mkFloat64 neg m e))"

text \<open>
  The encoder's \<open>floatEncoder\<close>: format \<open>'f'\<close>, or \<open>'e'\<close> for a magnitude below \<open>1e-6\<close> or
  from \<open>1e21\<close>, shortest digits; \<open>e-09\<close> is written \<open>e-9\<close>.
\<close>

function zeros :: "nat \<Rightarrow> string" where
  "zeros n = (if n = 0 then [] else CHR ''0'' # zeros (n - 1))"
  by pat_completeness auto
termination
  by (relation "measure id") auto

declare zeros.simps [simp del]

definition formatFloat :: "float64 \<Rightarrow> string" where
  "formatFloat f =
     (let ds = showNat (nat \<bar>mant f\<bar>);
          n = int (length ds);
          pp = n + dexp f;
          sg = (if mant f < 0 then ''-'' else [])
      in if mant f = 0 then ''0''
         else if pp \<le> - 6 \<or> pp \<ge> 22 then
           sg @ take 1 ds @ (if n > 1 then CHR ''.'' # drop 1 ds else [])
              @ [CHR ''e''] @ (if pp - 1 < 0 then ''-'' else ''+'')
              @ (if \<bar>pp - 1\<bar> < 10 \<and> pp - 1 \<ge> 0 then ''0'' else []) @ showNat (nat \<bar>pp - 1\<bar>)
         else if dexp f \<ge> 0 then sg @ ds @ zeros (nat (dexp f))
         else if pp > 0 then sg @ take (nat pp) ds @ CHR ''.'' # drop (nat pp) ds
         else sg @ ''0.'' @ zeros (nat (- pp)) @ ds)"

subsection \<open>Decoding into an empty interface\<close>

fun mapStore :: "string \<Rightarrow> goval \<Rightarrow> (string \<times> goval) list \<Rightarrow> (string \<times> goval) list" where
  "mapStore k v [] = [(k, v)]"
| "mapStore k v ((k', v') # kvs) =
     (if k = k' then (k, v) # kvs
      else if k < k' then (k, v) # (k', v') # kvs
      else (k', v') # mapStore k v kvs)"

fun toInterface :: "json \<Rightarrow> goval option"
  and toSlice :: "json list \<Rightarrow> goval list option"
  and toMap :: "(string \<times> json) list \<Rightarrow> (string \<times> goval) list \<Rightarrow> (string \<times> goval) list option" where
  "toInterface JNull = Some VNil"
| "toInterface (JBool b) = Some (VBool b)"
| "toInterface (JNumber lit) = map_option VFloat64 (ParseFloat lit)"
| "toInterface (JString s) = Some (VString s)"
| "toInterface (JArray vs) = map_option VSlice (toSlice vs)"
| "toInterface (JObject ms) = map_option VMap (toMap ms [])"
| "toSlice [] = Some []"
| "toSlice (v # vs) =
     (case toInterface v of
        None \<Rightarrow> None
      | Some x \<Rightarrow> (case toSlice vs of None \<Rightarrow> None | Some xs \<Rightarrow> Some (x # xs)))"
| "toMap [] acc = Some acc"
| "toMap (kv # ms) acc =
     (case toInterface (snd kv) of
        None \<Rightarrow> None
      | Some x \<Rightarrow> toMap ms (mapStore (fst kv) x acc))"

subsection \<open>Encoding a dynamic value\<close>

fun commaJoin :: "string list \<Rightarrow> string" where
  "commaJoin [] = []"
| "commaJoin [t] = t"
| "commaJoin (t # ts) = t @ CHR '','' # commaJoin ts"

fun encodeValue :: "goval \<Rightarrow> string option"
  and encodeElems :: "goval list \<Rightarrow> string list option"
  and encodeFields :: "(string \<times> goval) list \<Rightarrow> string list option" where
  "encodeValue VNil = Some ''null''"
| "encodeValue (VBool b) = Some (if b then ''true'' else ''false'')"
| "encodeValue (VFloat64 f) = Some (formatFloat f)"
| "encodeValue (VString s) = Some (quote s)"
| "encodeValue (VSlice vs) =
     (case encodeElems vs of None \<Rightarrow> None | Some ts \<Rightarrow> Some (CHR ''['' # commaJoin ts @ '']''))"
| "encodeValue (VMap kvs) =
     (case encodeFields kvs of None \<Rightarrow> None | Some ts \<Rightarrow> Some (CHR ''{'' # commaJoin (sort ts) @ ''}''))"
| "encodeValue (VInt i) = Some (showInt i)"
| "encodeValue (VUint64 n) = Some (showNat n)"
| "encodeValue VChan = None"
| "encodeElems [] = Some []"
| "encodeElems (v # vs) =
     (case encodeValue v of
        None \<Rightarrow> None
      | Some t \<Rightarrow> (case encodeElems vs of None \<Rightarrow> None | Some ts \<Rightarrow> Some (t # ts)))"
| "encodeFields [] = Some []"
| "encodeFields (kv # kvs) =
     (case encodeValue (snd kv) of
        None \<Rightarrow> None
      | Some t \<Rightarrow>
          (case encodeFields kvs of
             None \<Rightarrow> None
           | Some ts \<Rightarrow> Some ((quote (fst kv) @ CHR '':'' # t) # ts)))"



section \<open>Method registry (registry.go)\<close>

text \<open>
  A handler is reached through \<open>reflect\<close>. What \<open>call\<close> observes of one invocation is
  either a panic (the panic value as \<open>%v\<close> prints it, and the text \<open>debug.Stack()\<close> returns
  in the deferred function) or a return: the \<open>error\<close> result (\<open>None\<close> for \<open>nil\<close>, else
  its \<open>Error()\<close> text) together with the reply record as the handler left it.
\<close>

datatype 'r handler_outcome =
    Panicked string string
  | Returned "string option" 'r

text \<open>
  The cached descriptor of a method. \<open>ArgType\<close> is what the registry uses of the cached
  \<open>reflect.Type\<close> of the argument: \<open>ArgNew\<close> is the zero record \<open>reflect.New\<close> allocates and
  \<open>ArgUnmarshal data argv\<close> is \<open>json.Unmarshal(data, argv)\<close> at that type (the error text,
  or the filled record). \<open>ReplyType\<close> is the zero reply record. \<open>methodFunc\<close> is the callable
  (\<open>method.Func\<close>), already bound to its receiver.
\<close>

record ('c, 'a, 'r) methodType =
  methodFunc :: "'c \<Rightarrow> 'a \<Rightarrow> 'r \<Rightarrow> 'r handler_outcome"
  ArgNew :: 'a
  ArgUnmarshal :: "string \<Rightarrow> 'a \<Rightarrow> string + 'a"
  ReplyType :: 'r

record ('c, 'a, 'r) serviceType =
  name :: string
  methods :: "string \<rightharpoonup> ('c, 'a, 'r) methodType"

record ('c, 'a, 'r) ServiceRegistry =
  services :: "string \<rightharpoonup> ('c, 'a, 'r) serviceType"

text \<open>
  \<open>call\<close>: the deferred \<open>recover\<close> turns a panic into an Internal error; the payload is
  unmarshalled only when it is not empty; a returned error becomes an Internal error.
\<close>

definition call ::
  "'c \<Rightarrow> ('c, 'a, 'r) serviceType \<Rightarrow> ('c, 'a, 'r) methodType \<Rightarrow> string \<Rightarrow> Error + 'r" where
  "call ctx service m argsData =
     (case (if length argsData > 0 then ArgUnmarshal m argsData (ArgNew m) else Inr (ArgNew m)) of
        Inl err \<Rightarrow> Inl (NewInvalidParamsError (VString (''failed to unmarshal args: '' @ err)))
      | Inr argv \<Rightarrow>
          (case methodFunc m ctx argv (ReplyType m) of
             Panicked v stack \<Rightarrow>
               Inl (NewInternalError (VString (''panic: '' @ v @ [CHR 0x0A] @ ''stack: '' @ stack)))
           | Returned (Some errInter) replyv \<Rightarrow> Inl (NewInternalError (VString errInter))
           | Returned None replyv \<Rightarrow> Inr replyv))"

definition Call ::
  "('c, 'a, 'r) ServiceRegistry \<Rightarrow> 'c \<Rightarrow> string \<Rightarrow> string \<Rightarrow> string \<Rightarrow> Error + 'r" where
  "Call r ctx serviceName methodName args =
     (case services r serviceName of
        None \<Rightarrow> Inl (NewMethodNotFoundError (''service '' @ serviceName @ '' not found''))
      | Some service \<Rightarrow>
          (case methods service methodName of
             None \<Rightarrow> Inl (NewMethodNotFoundError (serviceName @ ''.'' @ methodName))
           | Some m \<Rightarrow> call ctx service m args))"

text \<open>The arithmetic service of the repository's tests, used to run the registry.\<close>

definition arithUnmarshal :: "string \<Rightarrow> int \<times> int \<Rightarrow> string + int \<times> int" where
  "arithUnmarshal data argv =
     (if data = ''{\"a\":10,\"b\":20}'' then Inr (10, 20)
      else if data = ''{\"a\":1,\"b\":0}'' then Inr (1, 0)
      else if data = ''{}'' then Inr argv
      else Inl ''invalid character'')"

definition arithAdd :: "(unit, int \<times> int, int) methodType" where
  "arithAdd = \<lparr>methodFunc = (\<lambda>ctx args reply. Returned None (fst args + snd args)),
     ArgNew = (0, 0), ArgUnmarshal = arithUnmarshal, ReplyType = 0\<rparr>"

definition arithDivide :: "(unit, int \<times> int, int) methodType" where
  "arithDivide = \<lparr>methodFunc = (\<lambda>ctx args reply.
       if snd args = 0 then Returned (Some ''division by zero'') reply
       else Returned None (fst args div snd args)),
     ArgNew = (0, 0), ArgUnmarshal = arithUnmarshal, ReplyType = 0\<rparr>"

definition arithPanic :: "(unit, int \<times> int, int) methodType" where
  "arithPanic = \<lparr>methodFunc = (\<lambda>ctx args reply. Panicked ''intentional panic'' ''goroutine 1''),
     ArgNew = (0, 0), ArgUnmarshal = arithUnmarshal, ReplyType = 0\<rparr>"

definition arithRegistry :: "(unit, int \<times> int, int) ServiceRegistry" where
  "arithRegistry = \<lparr>services = [''ArithService'' \<mapsto>
     \<lparr>name = ''ArithService'',
      methods = [''Add'' \<mapsto> arithAdd, ''Divide'' \<mapsto> arithDivide, ''Panic'' \<mapsto> arithPanic]\<rparr>]\<rparr>"


section \<open>Errors as values\<close>

text \<open>
  The \<open>error\<close> values the pool and the client handle: the package's sentinels, the three
  sentinels of the standard library the client tests for, an opaque \<open>errors.New\<close> error,
  a \<open>*net.OpError\<close> (it implements \<open>net.Error\<close>, and its \<open>Unwrap\<close> gives the error it
  carries), an error built by \<open>fmt.Errorf\<close> with one \<open>%w\<close> verb, and a protocol
  \<open>*Error\<close>.
\<close>

datatype goerr =
    ErrPoolClosed
  | ErrPoolExhausted
  | ErrInvalidConn
  | ErrClientClosed
  | ErrTimeout
  | ErrNoConnection
  | ContextCanceled
  | ContextDeadlineExceeded
  | IoEOF
  | ErrorsNew string
  | NetOpError string goerr
  | Wrapf string goerr
  | RPCError Error

text \<open>
  \<open>errors.Is\<close> compares the error and then each error down its \<open>Unwrap\<close> chain with the
  target. \<open>errors.As\<close> with a \<open>net.Error\<close> target finds the first error of the chain whose
  type implements \<open>net.Error\<close>: a \<open>*net.OpError\<close>, and also \<open>context.DeadlineExceeded\<close>,
  whose type has the \<open>Timeout\<close> and \<open>Temporary\<close> methods.
\<close>

fun errors_Is :: "goerr \<Rightarrow> goerr \<Rightarrow> bool" where
  "errors_Is (NetOpError opn err) target = (NetOpError opn err = target \<or> errors_Is err target)"
| "errors_Is (Wrapf msg err) target = (Wrapf msg err = target \<or> errors_Is err target)"
| "errors_Is err target = (err = target)"

fun errors_As_netError :: "goerr \<Rightarrow> bool" where
  "errors_As_netError (NetOpError opn err) = True"
| "errors_As_netError ContextDeadlineExceeded = True"
| "errors_As_netError (Wrapf msg err) = errors_As_netError err"
| "errors_As_netError err = False"


section \<open>Client retry classifier (Client.shouldRetry)\<close>

definition shouldRetry :: "goerr option \<Rightarrow> bool" where
  "shouldRetry e =
     (case e of
        None \<Rightarrow> False
      | Some err \<Rightarrow>
          if errors_Is err ErrClientClosed then False
          else if errors_Is err ContextCanceled \<or> errors_Is err ContextDeadlineExceeded then False
          else if errors_Is err ErrPoolExhausted then False
          else if errors_As_netError err then True
          else if errors_Is err ErrNoConnection \<or> errors_Is err IoEOF then True
          else False)"


section \<open>Connection pool\<close>

text \<open>
  A connection is identified by a number. \<open>idleConns\<close> is the content of the buffered
  channel, oldest first; its capacity is \<open>maxIdle\<close>. \<open>activeNum\<close> is the \<open>int32\<close> counter
  and \<open>closed\<close> the \<open>int32\<close> flag. The \<open>dial\<close> field is not part of the record: what one
  call of \<open>p.dial()\<close> returns is an argument of \<open>Get\<close>. \<open>testConn\<close> answers \<open>None\<close> for
  \<open>nil\<close> (the connection is healthy).
\<close>

record ConnPoolConfig =
  Network :: string
  Address :: string
  MaxIdle :: int
  MaxActive :: int
  DialTimeout :: int
  IdleTimeout :: int
  TestOnGet :: bool

record ConnPool =
  network :: string
  address :: string
  maxIdle :: int
  maxActive :: int
  idleConns :: "nat list"
  activeNum :: "32 word"
  testOnGet :: bool
  testConn :: "(nat \<Rightarrow> goerr option) option"
  dialTimeout :: int
  idleTimeout :: int
  closed :: bool

text \<open>
  \<open>NewConnPool\<close>; \<open>probe\<close> is what the default health check answers for a connection.
  Durations are nanoseconds.
\<close>

definition NewConnPool :: "(nat \<Rightarrow> goerr option) \<Rightarrow> ConnPoolConfig \<Rightarrow> goerr + ConnPool" where
  "NewConnPool probe config =
     (if Address config = [] then Inl (ErrorsNew ''address is required'')
      else Inr \<lparr>
        network = (if Network config = [] then ''tcp'' else Network config),
        address = Address config,
        maxIdle = (if MaxIdle config \<le> 0 then 10 else MaxIdle config),
        maxActive = (if MaxActive config < 0 then 0 else MaxActive config),
        idleConns = [],
        activeNum = 0,
        testOnGet = TestOnGet config,
        testConn = Some probe,
        dialTimeout = (if DialTimeout config \<le> 0 then 5 * 1000000000 else DialTimeout config),
        idleTimeout = (if IdleTimeout config \<le> 0 then 5 * 60 * 1000000000 else IdleTimeout config),
        closed = False\<rparr>)"

text \<open>
  \<open>Get\<close>: the fast path takes the oldest idle connection and, when it fails the health
  check, closes it, decrements the counter and calls \<open>Get\<close> again; the slow path compares
  the counter with \<open>int32(p.maxActive)\<close> (a truncation) and dials.
\<close>

function Get :: "(goerr + nat) \<Rightarrow> ConnPool \<Rightarrow> (goerr + nat) \<times> ConnPool" where
  "Get dial p =
     (if closed p then (Inl ErrPoolClosed, p)
      else
        (case idleConns p of
           conn # rest \<Rightarrow>
             (if testOnGet p \<and> (case testConn p of None \<Rightarrow> False | Some t \<Rightarrow> t conn \<noteq> None)
              then Get dial (p\<lparr>idleConns := rest, activeNum := activeNum p - 1\<rparr>)
              else (Inr conn, p\<lparr>idleConns := rest\<rparr>))
         | [] \<Rightarrow>
             (if maxActive p > 0 \<and> sint (activeNum p) \<ge> sint (word_of_int (maxActive p) :: 32 word)
              then (Inl ErrPoolExhausted, p)
              else
                (case dial of
                   Inl err \<Rightarrow> (Inl err, p)
                 | Inr conn \<Rightarrow> (Inr conn, p\<lparr>activeNum := activeNum p + 1\<rparr>)))))"
  by pat_completeness auto
termination
  by (relation "measure (\<lambda>(dial, p). length (idleConns p))") auto

definition Put :: "nat option \<Rightarrow> ConnPool \<Rightarrow> goerr option \<times> ConnPool" where
  "Put conn p =
     (case conn of
        None \<Rightarrow> (Some ErrInvalidConn, p)
      | Some c \<Rightarrow>
          if closed p then (Some ErrPoolClosed, p\<lparr>activeNum := activeNum p - 1\<rparr>)
          else if int (length (idleConns p)) < maxIdle p then (None, p\<lparr>idleConns := idleConns p @ [c]\<rparr>)
          else (None, p\<lparr>activeNum := activeNum p - 1\<rparr>))"

definition Close :: "ConnPool \<Rightarrow> ConnPool" where
  "Close p =
     (if closed p then p
      else p\<lparr>closed := True, idleConns := [],
             activeNum := activeNum p - word_of_nat (length (idleConns p))\<rparr>)"

definition ActiveCount :: "ConnPool \<Rightarrow> int" where
  "ActiveCount p = sint (activeNum p)"

definition IdleCount :: "ConnPool \<Rightarrow> nat" where
  "IdleCount p = length (idleConns p)"

text \<open>
  Runs of the pool. Beside the pool, a run keeps the list of connections that a \<open>Get\<close>
  has handed out and no \<open>Put\<close> has taken back (it is not part of the program's state).
  \<open>returns_held\<close> says that every \<open>Put\<close> of the run returns a connection the caller holds.
\<close>

datatype pool_op = OpGet "goerr + nat" | OpPut "nat option" | OpClose

fun step :: "pool_op \<Rightarrow> ConnPool \<times> nat list \<Rightarrow> ConnPool \<times> nat list" where
  "step (OpGet dial) (p, leased) =
     (case Get dial p of
        (Inr conn, p') \<Rightarrow> (p', conn # leased)
      | (Inl err, p') \<Rightarrow> (p', leased))"
| "step (OpPut conn) (p, leased) =
     (case conn of
        None \<Rightarrow> (snd (Put conn p), leased)
      | Some c \<Rightarrow> (snd (Put conn p), remove1 c leased))"
| "step OpClose (p, leased) = (Close p, leased)"

fun run :: "pool_op list \<Rightarrow> ConnPool \<times> nat list \<Rightarrow> ConnPool \<times> nat list" where
  "run [] s = s"
| "run (opn # ops) s = run ops (step opn s)"

fun returns_held :: "pool_op list \<Rightarrow> ConnPool \<times> nat list \<Rightarrow> bool" where
  "returns_held [] s = True"
| "returns_held (OpPut (Some c) # ops) s = (c \<in> set (snd s) \<and> returns_held ops (step (OpPut (Some c)) s))"
| "returns_held (opn # ops) s = returns_held ops (step opn s)"


definition counted :: "ConnPool \<Rightarrow> nat \<Rightarrow> bool" where
  "counted p n = (activeNum p = word_of_nat (n + length (idleConns p)))"

definition bounded :: "ConnPool \<Rightarrow> nat \<Rightarrow> bool" where
  "bounded p n = (maxActive p > 0 \<longrightarrow>
     int (n + length (idleConns p)) \<le> max 0 (sint (word_of_int (maxActive p) :: 32 word)))"

definition got :: "(goerr + nat) \<Rightarrow> nat" where
  "got res = (case res of Inl err \<Rightarrow> 0 | Inr conn \<Rightarrow> 1)"

definition pool_inv :: "ConnPool \<times> nat list \<Rightarrow> bool" where
  "pool_inv s = (counted (fst s) (length (snd s)) \<and> bounded (fst s) (length (snd s)))"

text \<open>The pool of the end-to-end scenario: at most 5 active and 2 idle connections.\<close>

definition testConfig :: ConnPoolConfig where
  "testConfig = \<lparr>Network = ''tcp'', Address = ''localhost:8080'', MaxIdle = 2, MaxActive = 5,
     DialTimeout = 0, IdleTimeout = 0, TestOnGet = True\<rparr>"

definition testPool :: ConnPool where
  "testPool = \<lparr>network = ''tcp'', address = ''localhost:8080'', maxIdle = 2, maxActive = 5,
     idleConns = [], activeNum = 0, testOnGet = True, testConn = Some (\<lambda>conn. None),
     dialTimeout = 5000000000, idleTimeout = 300000000000, closed = False\<rparr>"


section \<open>Retrying lease (ConnPool.GetWithRetry)\<close>

text \<open>
  \<open>pGet i\<close> is what call number \<open>i\<close> of \<open>p.Get()\<close> returns. The result carries the trace of
  the calls of \<open>p.Get()\<close> and of \<open>time.Sleep\<close>, in order. A \<open>time.Duration\<close> is an
  \<open>int64\<close>: the shift and the product wrap around.
\<close>

datatype event = CallGet | Sleep "64 word"

function GetWithRetry_loop ::
  "(nat \<Rightarrow> goerr + nat) \<Rightarrow> int \<Rightarrow> 64 word \<Rightarrow> int \<Rightarrow> goerr option
     \<Rightarrow> (nat option \<times> goerr option) \<times> event list" where
  "GetWithRetry_loop pGet maxRetries retryDelay i lastErr =
     (if i \<le> maxRetries then
        (case pGet (nat i) of
           Inr conn \<Rightarrow> ((Some conn, None), [CallGet])
         | Inl err \<Rightarrow>
             if errors_Is err ErrPoolClosed \<or> errors_Is err ErrPoolExhausted
             then ((None, Some err), [CallGet])
             else
               let slept = (if i < maxRetries then [Sleep (retryDelay * push_bit (nat i) 1)] else []);
                   (ret, later) = GetWithRetry_loop pGet maxRetries retryDelay (i + 1) (Some err)
               in (ret, CallGet # slept @ later))
      else ((None, lastErr), []))"
  by pat_completeness auto
termination
  by (relation "measure (\<lambda>(pGet, maxRetries, retryDelay, i, lastErr). nat (maxRetries + 1 - i))") auto

definition GetWithRetry ::
  "(nat \<Rightarrow> goerr + nat) \<Rightarrow> int \<Rightarrow> 64 word \<Rightarrow> (nat option \<times> goerr option) \<times> event list" where
  "GetWithRetry pGet maxRetries retryDelay = GetWithRetry_loop pGet maxRetries retryDelay 0 None"

definition attempts :: "event list \<Rightarrow> nat" where
  "attempts tr = length (filter (\<lambda>ev. ev = CallGet) tr)"

definition terminal :: "goerr \<Rightarrow> bool" where
  "terminal err = (errors_Is err ErrPoolClosed \<or> errors_Is err ErrPoolExhausted)"

definition backoff :: "64 word \<Rightarrow> nat \<Rightarrow> nat \<Rightarrow> event list" where
  "backoff retryDelay a b = concat (map (\<lambda>k. [CallGet, Sleep (retryDelay * push_bit k 1)]) [a..<b])"




section \<open>The JSON library: documents, compaction and records\<close>

text \<open>\<open>json.Valid\<close> (\<open>checkValid\<close>): one value, with white space around it and nothing else.\<close>

definition Valid :: "string \<Rightarrow> bool" where
  "Valid data =
     (case parseValue 0 (skipSpace data) of
        None \<Rightarrow> False
      | Some (v, rest) \<Rightarrow> skipSpace rest = [])"

text \<open>
  \<open>appendCompact\<close> with HTML escaping on, which the encoder applies to a \<open>json.RawMessage\<close>:
  white space outside strings is dropped, and \<open><\<close>, \<open>>\<close>, \<open>&\<close>, U+2028 and U+2029 are
  written as \<open>\u\<close> escapes. The flag says whether the scanner is inside a string.
\<close>

function compactText :: "bool \<Rightarrow> string \<Rightarrow> string" where
  "compactText inString s =
     (case s of
        [] \<Rightarrow> []
      | c # cs \<Rightarrow>
          if c = CHR ''<'' \<or> c = CHR ''>'' \<or> c = CHR ''&'' then
            [CHR 0x5C, CHR ''u'', CHR ''0'', CHR ''0'', hexDigit (of_char c div 16), hexDigit (of_char c mod 16)]
            @ compactText inString cs
          else if c = CHR 0xE2 \<and> take 1 cs = [CHR 0x80]
                  \<and> (take 1 (drop 1 cs) = [CHR 0xA8] \<or> take 1 (drop 1 cs) = [CHR 0xA9]) then
            [CHR 0x5C, CHR ''u'', CHR ''2'', CHR ''0'', CHR ''2'', hexDigit (byteAt cs 1 mod 16)]
            @ compactText inString (drop 2 cs)
          else if inString then
            (if c = CHR 0x5C then
               (case cs of [] \<Rightarrow> [c] | e # cs' \<Rightarrow> c # e # compactText True cs')
             else if c = CHR 0x22 then c # compactText False cs
             else c # compactText True cs)
          else if isSpace c then compactText False cs
          else if c = CHR 0x22 then c # compactText True cs
          else c # compactText False cs)"
  by pat_completeness auto
termination
  by (relation "measure (\<lambda>(inString, s). length s)") auto

declare compactText.simps [simp del]

definition compact :: "string \<Rightarrow> string option" where
  "compact src = (if Valid src then Some (compactText False src) else None)"

text \<open>
  The members of an object, as the decoder meets them: the key, unquoted, and the text of
  the value as it stands in the input (what a \<open>json.RawMessage\<close> field receives).
\<close>

function fieldsFrom :: "nat \<Rightarrow> string \<Rightarrow> (string \<times> string) list option" where
  "fieldsFrom d s =
     (case s of
        [] \<Rightarrow> None
      | q # r \<Rightarrow>
          if q = CHR 0x22 then
            (case scanString r of
               None \<Rightarrow> None
             | Some (key, r1) \<Rightarrow>
                 (case skipSpace r1 of
                    [] \<Rightarrow> None
                  | c # r2 \<Rightarrow>
                      if c = CHR '':'' then
                        (case parseValue d (skipSpace r2) of
                           None \<Rightarrow> None
                         | Some (v, r3) \<Rightarrow>
                             if length r1 < length s \<and> length r3 < length (skipSpace r2) then
                               (case skipSpace r3 of
                                  [] \<Rightarrow> None
                                | c' # r4 \<Rightarrow>
                                    if c' = CHR '','' then
                                      (case fieldsFrom d (skipSpace r4) of
                                         None \<Rightarrow> None
                                       | Some fs \<Rightarrow>
                                           Some ((unquote key,
                                             take (length (skipSpace r2) - length r3) (skipSpace r2)) # fs))
                                    else if c' = CHR ''}'' then
                                      Some [(unquote key, take (length (skipSpace r2) - length r3) (skipSpace r2))]
                                    else None)
                             else None)
                      else None))
          else None)"
  by pat_completeness auto
termination
proof (relation "measure (\<lambda>(d, s). length s)", goal_cases)
  case 1
  then show ?case by simp
next
  case (2 d s q r x2 key r1 c r2 x2a v r3 c' r4)
  then show ?case
    using skipSpace_Cons_length[of r1 c r2] length_skipSpace[of r2]
      skipSpace_Cons_length[of r3 c' r4] length_skipSpace[of r4] by simp
qed

declare fieldsFrom.simps [simp del]

definition objectFields :: "nat \<Rightarrow> string \<Rightarrow> (string \<times> string) list option" where
  "objectFields d s =
     (case s of
        [] \<Rightarrow> None
      | c # r \<Rightarrow>
          if c = CHR ''{'' \<and> d + 1 \<le> maxNestingDepth then
            (if take 1 (skipSpace r) = ''}'' then Some [] else fieldsFrom (d + 1) (skipSpace r))
          else None)"

text \<open>
  Field names are matched exactly, and else under \<open>foldName\<close>: ASCII letters in upper case,
  U+017F (long s) as \<open>S\<close> and U+212A (Kelvin sign) as \<open>K\<close>.
\<close>

function foldName :: "string \<Rightarrow> string" where
  "foldName s =
     (case s of
        [] \<Rightarrow> []
      | c # cs \<Rightarrow>
          if c = CHR 0xC5 \<and> take 1 cs = [CHR 0xBF] then CHR ''S'' # foldName (drop 1 cs)
          else if c = CHR 0xE2 \<and> take 2 cs = [CHR 0x84, CHR 0xAA] then CHR ''K'' # foldName (drop 2 cs)
          else if CHR ''a'' \<le> c \<and> c \<le> CHR ''z'' then byteChar (of_char c - 32) # foldName cs
          else c # foldName cs)"
  by pat_completeness auto
termination
  by (relation "measure length") auto

declare foldName.simps [simp del]

definition fieldOf :: "string list \<Rightarrow> string \<Rightarrow> string option" where
  "fieldOf names key =
     (if key \<in> set names then Some key else find (\<lambda>n. foldName n = foldName key) names)"

text \<open>
  Storing one JSON value, given as its text, into a Go value of a given type. The left
  result is the decoder's error (\<open>*json.UnmarshalTypeError\<close>); the texts of the library's
  errors are shortened. \<open>null\<close> leaves a string or an integer as it is.
\<close>

definition decodeString :: "string \<Rightarrow> string \<Rightarrow> string + string" where
  "decodeString raw cur =
     (if take 1 raw = [CHR 0x22] then
        (case scanString (drop 1 raw) of
           None \<Rightarrow> Inl ''json: invalid string''
         | Some (body, rest) \<Rightarrow> Inr (unquote body))
      else if raw = ''null'' then Inr cur
      else Inl ''json: cannot unmarshal into Go value of type string'')"

text \<open>An \<open>int\<close> field: \<open>strconv.ParseInt(lit, 10, 64)\<close> on a number literal.\<close>

definition decodeInt :: "string \<Rightarrow> int \<Rightarrow> string + int" where
  "decodeInt raw cur =
     (let ds = (if take 1 raw = ''-'' then drop 1 raw else raw);
          v = (if take 1 raw = ''-'' then - int (digitsVal ds) else int (digitsVal ds))
      in if raw = ''null'' then Inr cur
         else if ds \<noteq> [] \<and> list_all isDigit ds \<and> - (2 ^ 63) \<le> v \<and> v < 2 ^ 63 then Inr v
         else Inl ''json: cannot unmarshal into Go value of type int'')"

definition decodeInterface :: "string \<Rightarrow> string + goval" where
  "decodeInterface raw =
     (case parseValue 0 raw of
        None \<Rightarrow> Inl ''json: invalid value''
      | Some (v, rest) \<Rightarrow>
          (case toInterface v of
             None \<Rightarrow> Inl ''json: cannot unmarshal number into Go value of type float64''
           | Some x \<Rightarrow> Inr x))"

text \<open>
  The members of an object are stored one after the other, so a later duplicate key wins.
  The decoder goes on after a type error and reports the first one at the end; the callers
  here drop the record on any error, so the model stops at the first.
\<close>

fun storeAll :: "('k \<Rightarrow> 's \<Rightarrow> string + 's) \<Rightarrow> 'k list \<Rightarrow> 's \<Rightarrow> string + 's" where
  "storeAll store [] v = Inr v"
| "storeAll store (x # xs) v =
     (case store x v of Inl err \<Rightarrow> Inl err | Inr v' \<Rightarrow> storeAll store xs v')"

text \<open>
  \<open>json.Unmarshal(data, &v)\<close> for a struct \<open>v\<close> whose fields \<open>store\<close> fills: a syntax error
  when the input is not valid JSON; an object is stored member by member; \<open>null\<close> changes
  nothing; any other value is a type error.
\<close>

definition Unmarshal :: "(string \<times> string \<Rightarrow> 's \<Rightarrow> string + 's) \<Rightarrow> string \<Rightarrow> 's \<Rightarrow> string + 's" where
  "Unmarshal store data v =
     (if \<not> Valid data then Inl ''invalid character''
      else if take 1 (skipSpace data) = ''{'' then
        (case objectFields 0 (skipSpace data) of
           None \<Rightarrow> Inl ''invalid character''
         | Some fs \<Rightarrow> storeAll store fs v)
      else if take 4 (skipSpace data) = ''null'' then Inr v
      else Inl ''json: cannot unmarshal into Go value of struct type'')"


section \<open>Protocol messages\<close>

text \<open>
  A \<open>json.RawMessage\<close> is a byte slice: \<open>None\<close> is \<open>nil\<close>. \<open>Error_resp\<close> is the pointer
  \<open>*Error\<close>, \<open>None\<close> for \<open>nil\<close>; \<open>VNil\<close> is the \<open>nil\<close> identifier.
\<close>

record Request =
  Jsonrpc :: string
  Method :: string
  Params :: "string option"
  ID :: goval

record Response =
  Jsonrpc_resp :: string
  Result :: "string option"
  Error_resp :: "Error option"
  ID_resp :: goval

text \<open>What \<open>GetRequest\<close> and \<open>GetResponse\<close> hand out: a record after \<open>Reset\<close>.\<close>

definition GetRequest :: Request where
  "GetRequest = \<lparr>Jsonrpc = [], Method = [], Params = None, ID = VNil\<rparr>"

definition GetResponse :: Response where
  "GetResponse = \<lparr>Jsonrpc_resp = [], Result = None, Error_resp = None, ID_resp = VNil\<rparr>"

subsection \<open>Decoding the records (the struct tags of types.go)\<close>

definition storeRequestField :: "string \<times> string \<Rightarrow> Request \<Rightarrow> string + Request" where
  "storeRequestField kv req =
     (case fieldOf [''jsonrpc'', ''method'', ''params'', ''id''] (fst kv) of
        None \<Rightarrow> Inr req
      | Some f \<Rightarrow>
          if f = ''jsonrpc'' then
            (case decodeString (snd kv) (Jsonrpc req) of
               Inl err \<Rightarrow> Inl err | Inr s \<Rightarrow> Inr (req\<lparr>Jsonrpc := s\<rparr>))
          else if f = ''method'' then
            (case decodeString (snd kv) (Method req) of
               Inl err \<Rightarrow> Inl err | Inr s \<Rightarrow> Inr (req\<lparr>Method := s\<rparr>))
          else if f = ''params'' then Inr (req\<lparr>Params := Some (snd kv)\<rparr>)
          else
            (case decodeInterface (snd kv) of
               Inl err \<Rightarrow> Inl err | Inr x \<Rightarrow> Inr (req\<lparr>ID := x\<rparr>)))"

definition storeErrorField :: "string \<times> string \<Rightarrow> Error \<Rightarrow> string + Error" where
  "storeErrorField kv e =
     (case fieldOf [''code'', ''message'', ''data''] (fst kv) of
        None \<Rightarrow> Inr e
      | Some f \<Rightarrow>
          if f = ''code'' then
            (case decodeInt (snd kv) (Code e) of
               Inl err \<Rightarrow> Inl err | Inr i \<Rightarrow> Inr (e\<lparr>Code := i\<rparr>))
          else if f = ''message'' then
            (case decodeString (snd kv) (Message e) of
               Inl err \<Rightarrow> Inl err | Inr s \<Rightarrow> Inr (e\<lparr>Message := s\<rparr>))
          else
            (case decodeInterface (snd kv) of
               Inl err \<Rightarrow> Inl err | Inr x \<Rightarrow> Inr (e\<lparr>Data := x\<rparr>)))"

text \<open>
  The \<open>*Error\<close> field: \<open>null\<close> makes the pointer \<open>nil\<close>; an object is stored into the
  record the pointer holds, a zero record when it is \<open>nil\<close>.
\<close>

definition decodeErrorPtr :: "string \<Rightarrow> Error option \<Rightarrow> string + Error option" where
  "decodeErrorPtr raw cur =
     (if raw = ''null'' then Inr None
      else
        (case objectFields 0 raw of
           None \<Rightarrow> Inl ''json: cannot unmarshal into Go value of type rerpc.Error''
         | Some fs \<Rightarrow>
             (case storeAll storeErrorField fs
                     (case cur of None \<Rightarrow> \<lparr>Code = 0, Message = [], Data = VNil\<rparr> | Some e \<Rightarrow> e) of
                Inl err \<Rightarrow> Inl err
              | Inr e \<Rightarrow> Inr (Some e))))"

definition storeResponseField :: "string \<times> string \<Rightarrow> Response \<Rightarrow> string + Response" where
  "storeResponseField kv resp =
     (case fieldOf [''jsonrpc'', ''result'', ''error'', ''id''] (fst kv) of
        None \<Rightarrow> Inr resp
      | Some f \<Rightarrow>
          if f = ''jsonrpc'' then
            (case decodeString (snd kv) (Jsonrpc_resp resp) of
               Inl err \<Rightarrow> Inl err | Inr s \<Rightarrow> Inr (resp\<lparr>Jsonrpc_resp := s\<rparr>))
          else if f = ''result'' then Inr (resp\<lparr>Result := Some (snd kv)\<rparr>)
          else if f = ''error'' then
            (case decodeErrorPtr (snd kv) (Error_resp resp) of
               Inl err \<Rightarrow> Inl err | Inr e \<Rightarrow> Inr (resp\<lparr>Error_resp := e\<rparr>))
          else
            (case decodeInterface (snd kv) of
               Inl err \<Rightarrow> Inl err | Inr x \<Rightarrow> Inr (resp\<lparr>ID_resp := x\<rparr>)))"

subsection \<open>Encoding the records\<close>

text \<open>
  \<open>json.NewEncoder(buf).Encode(v)\<close>: the fields in the order of the struct, the \<open>omitempty\<close>
  fields left out when empty (a raw message of length 0, a \<open>nil\<close> pointer, a \<open>nil\<close>
  interface), a raw message compacted, and a newline at the end. \<open>None\<close> is the encoder's
  error.
\<close>

definition encodeRaw :: "string \<Rightarrow> string option \<Rightarrow> string option" where
  "encodeRaw label raw =
     (case raw of
        None \<Rightarrow> Some []
      | Some p \<Rightarrow>
          if p = [] then Some []
          else (case compact p of None \<Rightarrow> None | Some c \<Rightarrow> Some (label @ c)))"

definition encodeError :: "Error \<Rightarrow> string option" where
  "encodeError e =
     (case (if Data e = VNil then Some [] else map_option (\<lambda>t. '',\"data\":'' @ t) (encodeValue (Data e))) of
        None \<Rightarrow> None
      | Some d \<Rightarrow>
          Some (''{\"code\":'' @ showInt (Code e) @ '',\"message\":'' @ quote (Message e) @ d @ ''}''))"

definition encodeRequest :: "Request \<Rightarrow> string option" where
  "encodeRequest req =
     (case encodeRaw '',\"params\":'' (Params req) of
        None \<Rightarrow> None
      | Some p \<Rightarrow>
          (case encodeValue (ID req) of
             None \<Rightarrow> None
           | Some i \<Rightarrow>
               Some (''{\"jsonrpc\":'' @ quote (Jsonrpc req) @ '',\"method\":'' @ quote (Method req) @ p
                     @ '',\"id\":'' @ i @ ''}'' @ [CHR 0x0A])))"

definition encodeResponse :: "Response \<Rightarrow> string option" where
  "encodeResponse resp =
     (case encodeRaw '',\"result\":'' (Result resp) of
        None \<Rightarrow> None
      | Some r \<Rightarrow>
          (case (case Error_resp resp of
                   None \<Rightarrow> Some []
                 | Some e \<Rightarrow> map_option (\<lambda>t. '',\"error\":'' @ t) (encodeError e)) of
             None \<Rightarrow> None
           | Some e \<Rightarrow>
               (case encodeValue (ID_resp resp) of
                  None \<Rightarrow> None
                | Some i \<Rightarrow>
                    Some (''{\"jsonrpc\":'' @ quote (Jsonrpc_resp resp) @ r @ e
                          @ '',\"id\":'' @ i @ ''}'' @ [CHR 0x0A]))))"


section \<open>Codec (JSONCodec)\<close>

text \<open>
  \<open>EncodeRequest\<close> and \<open>EncodeResponse\<close> write the version tag into the caller's record
  when it is empty: the record after the call is the second component. The argument is
  \<open>None\<close> for a \<open>nil\<close> pointer.
\<close>

definition EncodeRequest :: "Request option \<Rightarrow> (goerr + string) \<times> Request option" where
  "EncodeRequest r =
     (case r of
        None \<Rightarrow> (Inl (RPCError (NewInvalidRequestError (VString ''request is nil''))), None)
      | Some req \<Rightarrow>
          if Method req = [] then (Inl (RPCError (NewInvalidRequestError (VString ''method is required''))), Some req)
          else
            (let req' = (if Jsonrpc req = [] then req\<lparr>Jsonrpc := JSONRPCVersion\<rparr> else req) in
             case encodeRequest req' of
               None \<Rightarrow> (Inl (Wrapf ''encode request failed: '' (ErrorsNew ''json: error'')), Some req')
             | Some data \<Rightarrow> (Inr data, Some req')))"

definition DecodeRequest :: "string \<Rightarrow> Error + Request" where
  "DecodeRequest data =
     (if length data = 0 then Inl (NewInvalidRequestError (VString ''empty request data''))
      else
        (case Unmarshal storeRequestField data GetRequest of
           Inl err \<Rightarrow> Inl (NewParseError (VString err))
         | Inr req \<Rightarrow>
             if Jsonrpc req \<noteq> JSONRPCVersion then
               Inl (NewInvalidRequestError (VString (''invalid jsonrpc version: '' @ Jsonrpc req)))
             else if Method req = [] then Inl (NewInvalidRequestError (VString ''method is required''))
             else Inr req))"

definition EncodeResponse :: "Response option \<Rightarrow> (goerr + string) \<times> Response option" where
  "EncodeResponse r =
     (case r of
        None \<Rightarrow> (Inl (RPCError (NewInternalError (VString ''response is nil''))), None)
      | Some resp \<Rightarrow>
          (let resp' = (if Jsonrpc_resp resp = [] then resp\<lparr>Jsonrpc_resp := JSONRPCVersion\<rparr> else resp) in
           if Result resp' = None \<and> Error_resp resp' = None then
             (Inl (RPCError (NewInternalError (VString ''response must have either result or error''))), Some resp')
           else if Result resp' \<noteq> None \<and> Error_resp resp' \<noteq> None then
             (Inl (RPCError (NewInternalError (VString ''response cannot have both result and error''))), Some resp')
           else
             (case encodeResponse resp' of
                None \<Rightarrow> (Inl (Wrapf ''encode response failed: '' (ErrorsNew ''json: error'')), Some resp')
              | Some data \<Rightarrow> (Inr data, Some resp'))))"

definition DecodeResponse :: "string \<Rightarrow> Error + Response" where
  "DecodeResponse data =
     (if length data = 0 then Inl (NewInvalidRequestError (VString ''empty response data''))
      else
        (case Unmarshal storeResponseField data GetResponse of
           Inl err \<Rightarrow> Inl (NewParseError (VString err))
         | Inr resp \<Rightarrow>
             if Jsonrpc_resp resp \<noteq> JSONRPCVersion then
               Inl (NewInvalidRequestError (VString (''invalid jsonrpc version: '' @ Jsonrpc_resp resp)))
             else if Result resp = None \<and> Error_resp resp = None then
               Inl (NewInvalidRequestError (VString ''response must have either result or error''))
             else Inr resp))"

lemmas json_eval = skipSpace_def isSpace_def scanNumber_def scanFrac_def scanExp_def isDigit_def isHex_def
  maxNestingDepth_def byteChar_def byteAt_def isCont_def utf8Len_def replacementChar_def encodeRune_def
  hexVal_def getu4_def unescape_def htmlSafe_def hexDigit_def quote_def
  showNat.simps showInt_def digitsVal_def stripTens.simps mkFloat64_def ParseFloat_def formatFloat_def zeros.simps
  unquote.simps quoteBody.simps parseValue.simps parseElems.simps parseMembers.simps
  Valid_def compactText.simps compact_def fieldsFrom.simps objectFields_def foldName.simps fieldOf_def
  decodeString_def decodeInt_def decodeInterface_def Unmarshal_def

lemmas codec_eval = GetRequest_def GetResponse_def storeRequestField_def storeErrorField_def
  decodeErrorPtr_def storeResponseField_def encodeRaw_def encodeError_def encodeRequest_def
  encodeResponse_def EncodeRequest_def DecodeRequest_def EncodeResponse_def DecodeResponse_def
  JSONRPCVersion_def NewError_def NewParseError_def NewInvalidRequestError_def
  NewMethodNotFoundError_def NewInvalidParamsError_def NewInternalError_def
  ErrCodeParse_def ErrCodeInvalidRequest_def ErrCodeMethodNotFound_def ErrCodeInvalidParams_def
  ErrCodeInternal_def ErrMsgParse_def ErrMsgInvalidRequest_def ErrMsgMethodNotFound_def
  ErrMsgInvalidParams_def ErrMsgInternal_def


section \<open>Server request processing (server.go)\<close>








section \<open>Client response handling (Client.receiveResponse)\<close>







section \<open>Theorems: method registry\<close>

lemmas err_defs = NewError_def NewParseError_def NewInvalidRequestError_def NewMethodNotFoundError_def
  NewInvalidParamsError_def NewInternalError_def ErrCodeParse_def ErrCodeInvalidRequest_def
  ErrCodeMethodNotFound_def ErrCodeInvalidParams_def ErrCodeInternal_def

text \<open>
  C4. \<open>Call\<close> classifies every outcome: an unregistered service or method gives an Error
  with code -32601; when the unmarshal step runs (the payload is not empty) and fails, the
  Error has code -32602; a panic of the handler is recovered into an Error with code
  -32603 whose data carries the panic value and the stack; a returned error becomes an
  Error with code -32603 whose data is its message; otherwise the reply record is returned
  and there is no error.
\<close>

theorem Call_classification:
  "(services r sn = None \<longrightarrow> (\<exists>e. Call r ctx sn mn args = Inl e \<and> Code e = - 32601)) \<and>
   (\<forall>svc. services r sn = Some svc \<longrightarrow>
      (methods svc mn = None \<longrightarrow> (\<exists>e. Call r ctx sn mn args = Inl e \<and> Code e = - 32601)) \<and>
      (\<forall>m. methods svc mn = Some m \<longrightarrow>
         (\<forall>err. args \<noteq> [] \<and> ArgUnmarshal m args (ArgNew m) = Inl err \<longrightarrow>
             (\<exists>e. Call r ctx sn mn args = Inl e \<and> Code e = - 32602)) \<and>
         (\<forall>argv. (args = [] \<and> argv = ArgNew m) \<or> (args \<noteq> [] \<and> ArgUnmarshal m args (ArgNew m) = Inr argv) \<longrightarrow>
             (\<forall>v stack. methodFunc m ctx argv (ReplyType m) = Panicked v stack \<longrightarrow>
                 (\<exists>e. Call r ctx sn mn args = Inl e \<and> Code e = - 32603 \<and>
                      Data e = VString (''panic: '' @ v @ [CHR 0x0A] @ ''stack: '' @ stack))) \<and>
             (\<forall>msg reply. methodFunc m ctx argv (ReplyType m) = Returned (Some msg) reply \<longrightarrow>
                 (\<exists>e. Call r ctx sn mn args = Inl e \<and> Code e = - 32603 \<and> Data e = VString msg)) \<and>
             (\<forall>reply. methodFunc m ctx argv (ReplyType m) = Returned None reply \<longrightarrow>
                 Call r ctx sn mn args = Inr reply))))"
  by (auto simp: Call_def call_def err_defs)

lemmas arith_defs = arithRegistry_def arithAdd_def arithDivide_def arithPanic_def arithUnmarshal_def

theorem Call_classification_witness:
  \<open>(\<exists>e. Call arithRegistry () ''Nope'' ''Add'' ''{}'' = Inl e \<and> Code e = - 32601) \<and>
   (\<exists>e. Call arithRegistry () ''ArithService'' ''Nope'' ''{}'' = Inl e \<and> Code e = - 32601) \<and>
   (\<exists>e. Call arithRegistry () ''ArithService'' ''Add'' ''{"a":'' = Inl e \<and> Code e = - 32602) \<and>
   (\<exists>e. Call arithRegistry () ''ArithService'' ''Panic'' ''{}'' = Inl e \<and> Code e = - 32603 \<and>
      Data e = VString (''panic: '' @ ''intentional panic'' @ [CHR 0x0A] @ ''stack: '' @ ''goroutine 1'')) \<and>
   (\<exists>e. Call arithRegistry () ''ArithService'' ''Divide'' ''{"a":1,"b":0}'' = Inl e \<and> Code e = - 32603 \<and>
      Data e = VString ''division by zero'') \<and>
   Call arithRegistry () ''ArithService'' ''Add'' ''{"a":10,"b":20}'' = Inr 30\<close>
  using Call_classification [of arithRegistry "''Nope''" "()" "''Add''" "''{}''"]
    Call_classification [of arithRegistry "''ArithService''" "()" "''Nope''" "''{}''"]
    Call_classification [of arithRegistry "''ArithService''" "()" "''Add''" \<open>''{"a":''\<close>]
    Call_classification [of arithRegistry "''ArithService''" "()" "''Panic''" "''{}''"]
    Call_classification [of arithRegistry "''ArithService''" "()" "''Divide''" \<open>''{"a":1,"b":0}''\<close>]
    Call_classification [of arithRegistry "''ArithService''" "()" "''Add''" \<open>''{"a":10,"b":20}''\<close>]
  by (simp add: arith_defs)




section \<open>Theorems: client retry classifier\<close>

text \<open>
  C8, as the code has it. \<open>shouldRetry\<close> first refuses \<open>nil\<close> and every error whose chain
  holds \<open>ErrClientClosed\<close>, \<open>context.Canceled\<close>, \<open>context.DeadlineExceeded\<close> or
  \<open>ErrPoolExhausted\<close>, also when the error is a network error; any other error is retried
  exactly when its chain holds a \<open>net.Error\<close>, \<open>ErrNoConnection\<close> or \<open>io.EOF\<close>.
\<close>

theorem shouldRetry_classification:
  "\<not> shouldRetry None \<and>
   (\<forall>err. shouldRetry (Some err) =
      (\<not> errors_Is err ErrClientClosed \<and> \<not> errors_Is err ContextCanceled \<and>
       \<not> errors_Is err ContextDeadlineExceeded \<and> \<not> errors_Is err ErrPoolExhausted \<and>
       (errors_As_netError err \<or> errors_Is err ErrNoConnection \<or> errors_Is err IoEOF))) \<and>
   shouldRetry (Some (NetOpError opn (ErrorsNew msg))) \<and>
   shouldRetry (Some IoEOF) \<and>
   shouldRetry (Some ErrNoConnection) \<and>
   shouldRetry (Some (Wrapf msg ErrNoConnection)) \<and>
   \<not> shouldRetry (Some ContextCanceled) \<and>
   \<not> shouldRetry (Some ContextDeadlineExceeded) \<and>
   \<not> shouldRetry (Some ErrClientClosed) \<and>
   \<not> shouldRetry (Some ErrPoolExhausted) \<and>
   \<not> shouldRetry (Some (ErrorsNew msg)) \<and>
   \<not> shouldRetry (Some (RPCError e))"
  by (simp add: shouldRetry_def)

text \<open>
  The claim's first clause fails: a dial aborted by its context is a \<open>*net.OpError\<close>, a
  network error, and \<open>shouldRetry\<close> returns false for it.
\<close>

theorem shouldRetry_network_error_counterexample:
  "errors_As_netError (NetOpError ''dial'' ContextCanceled) \<and>
   shouldRetry (Some (NetOpError ''dial'' ContextCanceled)) = False"
  by (simp add: shouldRetry_def)


section \<open>Theorems: retrying lease\<close>

declare GetWithRetry_loop.simps [simp del]

lemma loop_step:
  assumes "pGet a = Inl e" and "\<not> terminal e" and "int a < N"
  shows "GetWithRetry_loop pGet N d (int a) l =
      (fst (GetWithRetry_loop pGet N d (int (Suc a)) (Some e)),
       CallGet # Sleep (d * push_bit a 1) # snd (GetWithRetry_loop pGet N d (int (Suc a)) (Some e)))"
  using assms
  by (subst GetWithRetry_loop.simps) (simp add: terminal_def add.commute split: prod.splits)

lemma loop_prefix:
  assumes "\<forall>j. a \<le> j \<and> j < b \<longrightarrow> (\<exists>e. pGet j = Inl e \<and> \<not> terminal e)"
    and "a \<le> b" and "int b \<le> N"
    and "\<forall>l'. GetWithRetry_loop pGet N d (int b) l' = X"
  shows "GetWithRetry_loop pGet N d (int a) l = (fst X, backoff d a b @ snd X)"
  using assms
proof (induction "b - a" arbitrary: a l)
  case 0
  then show ?case by (simp add: backoff_def)
next
  case (Suc n)
  then have ab: "a < b" by simp
  from Suc.prems(1) ab obtain e where e: "pGet a = Inl e" "\<not> terminal e" by blast
  have IH: "GetWithRetry_loop pGet N d (int (Suc a)) (Some e) = (fst X, backoff d (Suc a) b @ snd X)"
    using Suc.hyps(1)[of "Suc a" "Some e"] Suc.hyps(2) Suc.prems ab by auto
  have bk: "backoff d a b = CallGet # Sleep (d * push_bit a 1) # backoff d (Suc a) b"
    using ab by (simp add: backoff_def upt_conv_Cons)
  have st: "GetWithRetry_loop pGet N d (int a) l =
      (fst (GetWithRetry_loop pGet N d (int (Suc a)) (Some e)),
       CallGet # Sleep (d * push_bit a 1) # snd (GetWithRetry_loop pGet N d (int (Suc a)) (Some e)))"
    using e ab Suc.prems(3) by (intro loop_step) auto
  show ?case
    unfolding st IH bk by simp
qed

lemma loop_success:
  assumes "pGet b = Inr c" and "int b \<le> N"
  shows "GetWithRetry_loop pGet N d (int b) l = ((Some c, None), [CallGet])"
  using assms by (subst GetWithRetry_loop.simps) simp

lemma loop_terminal:
  assumes "pGet b = Inl e" and "terminal e" and "int b \<le> N"
  shows "GetWithRetry_loop pGet N d (int b) l = ((None, Some e), [CallGet])"
  using assms by (subst GetWithRetry_loop.simps) (simp add: terminal_def)

lemma loop_last:
  assumes "pGet b = Inl e" and "\<not> terminal e"
  shows "GetWithRetry_loop pGet (int b) d (int b) l = ((None, Some e), [CallGet])"
  using assms
  by (subst GetWithRetry_loop.simps, subst GetWithRetry_loop.simps) (simp add: terminal_def)

lemma loop_attempts:
  "0 \<le> i \<Longrightarrow> attempts (snd (GetWithRetry_loop pGet N d i l)) \<le> nat (N + 1 - i)"
proof (induction pGet N d i l rule: GetWithRetry_loop.induct)
  case (1 pGet maxRetries retryDelay i lastErr)
  show ?case
  proof (cases "i \<le> maxRetries")
    case False
    then show ?thesis by (subst GetWithRetry_loop.simps) (simp add: attempts_def)
  next
    case True
    show ?thesis
    proof (cases "pGet (nat i)")
      case (Inr c)
      then show ?thesis using True by (subst GetWithRetry_loop.simps) (simp add: attempts_def)
    next
      case (Inl e)
      show ?thesis
      proof (cases "terminal e")
        case True
        then show ?thesis using Inl \<open>i \<le> maxRetries\<close>
          by (subst GetWithRetry_loop.simps) (simp add: attempts_def terminal_def)
      next
        case False
        have "attempts (snd (GetWithRetry_loop pGet maxRetries retryDelay (i + 1) (Some e)))
            \<le> nat (maxRetries + 1 - (i + 1))"
          using "1.IH"[OF True Inl _ refl] False "1.prems" by (simp add: terminal_def)
        then show ?thesis using Inl False True "1.prems"
          by (subst GetWithRetry_loop.simps) (auto simp: attempts_def terminal_def split: prod.splits)
      qed
    qed
  qed
qed

lemma delay_no_overflow:
  assumes "0 \<le> sint d" and "sint d * 2 ^ k < 2 ^ 63"
  shows "sint (d * push_bit k (1 :: 64 word)) = sint d * 2 ^ k"
proof -
  have "d * push_bit k (1 :: 64 word) = word_of_int (sint d) * word_of_int (2 ^ k)"
    by (simp add: push_bit_eq_mult)
  also have "\<dots> = word_of_int (sint d * 2 ^ k)" by simp
  finally have "sint (d * push_bit k (1 :: 64 word)) = signed_take_bit 63 (sint d * 2 ^ k)"
    by (simp only: sint_sbintrunc') simp
  also have "\<dots> = sint d * 2 ^ k"
  proof (rule signed_take_bit_int_eq_self)
    have "0 \<le> sint d * 2 ^ k" using assms(1) by simp
    moreover have "- (2 ^ 63) \<le> (0::int)" by simp
    ultimately show "- (2 ^ 63) \<le> sint d * 2 ^ k" by (rule order.trans[rotated])
    show "sint d * 2 ^ k < 2 ^ 63" using assms(2) .
  qed
  finally show ?thesis .
qed

text \<open>
  C7, as the code has it. \<open>GetWithRetry N d\<close> calls \<open>p.Get()\<close> at most \<open>N + 1\<close> times. While
  the calls fail with errors other than \<open>ErrPoolClosed\<close> and \<open>ErrPoolExhausted\<close> it sleeps
  \<open>d * 2 ^ k\<close> after the failed call number \<open>k\<close> (in wrapping 64-bit arithmetic, the exact
  product when that is below \<open>2 ^ 63\<close>); the first successful call returns its connection;
  a call failing with \<open>ErrPoolClosed\<close> or \<open>ErrPoolExhausted\<close> returns that error at once,
  with no sleep and no further call; and when call number \<open>N\<close> fails too, its error is
  returned, with no sleep after it.
\<close>

theorem GetWithRetry_attempts:
  "attempts (snd (GetWithRetry pGet N d)) \<le> nat (N + 1) \<and>
   (\<forall>k. 0 \<le> sint d \<and> sint d * 2 ^ k < 2 ^ 63 \<longrightarrow> sint (d * push_bit k 1) = sint d * 2 ^ k) \<and>
   (\<forall>i. int i \<le> N \<and> (\<forall>j<i. \<exists>e. pGet j = Inl e \<and> \<not> terminal e) \<longrightarrow>
      (\<forall>c. pGet i = Inr c \<longrightarrow>
         GetWithRetry pGet N d = ((Some c, None), backoff d 0 i @ [CallGet])) \<and>
      (\<forall>e. pGet i = Inl e \<and> terminal e \<longrightarrow>
         GetWithRetry pGet N d = ((None, Some e), backoff d 0 i @ [CallGet])) \<and>
      (\<forall>e. pGet i = Inl e \<and> \<not> terminal e \<and> int i = N \<longrightarrow>
         GetWithRetry pGet N d = ((None, Some e), backoff d 0 i @ [CallGet])))"
proof (intro conjI allI impI)
  show "attempts (snd (GetWithRetry pGet N d)) \<le> nat (N + 1)"
    using loop_attempts[of 0 pGet N d None] by (simp add: GetWithRetry_def)
next
  fix k assume "0 \<le> sint d \<and> sint d * 2 ^ k < 2 ^ 63"
  then show "sint (d * push_bit k 1) = sint d * 2 ^ k"
    using delay_no_overflow[of d k] by simp
next
  fix i c assume h: "int i \<le> N \<and> (\<forall>j<i. \<exists>e. pGet j = Inl e \<and> \<not> terminal e)" and g: "pGet i = Inr c"
  show "GetWithRetry pGet N d = ((Some c, None), backoff d 0 i @ [CallGet])"
    using loop_prefix[of 0 i pGet N d "((Some c, None), [CallGet])" None] h g loop_success[of pGet i c N d]
    by (simp add: GetWithRetry_def)
next
  fix i e assume h: "int i \<le> N \<and> (\<forall>j<i. \<exists>e. pGet j = Inl e \<and> \<not> terminal e)" and g: "pGet i = Inl e \<and> terminal e"
  show "GetWithRetry pGet N d = ((None, Some e), backoff d 0 i @ [CallGet])"
    using loop_prefix[of 0 i pGet N d "((None, Some e), [CallGet])" None] h loop_terminal[of pGet i e N d] g
    by (simp add: GetWithRetry_def)
next
  fix i e assume h: "int i \<le> N \<and> (\<forall>j<i. \<exists>e. pGet j = Inl e \<and> \<not> terminal e)"
    and g: "pGet i = Inl e \<and> \<not> terminal e \<and> int i = N"
  show "GetWithRetry pGet N d = ((None, Some e), backoff d 0 i @ [CallGet])"
    using loop_prefix[of 0 i pGet N d "((None, Some e), [CallGet])" None] h loop_last[of pGet i e d] g
    by (auto simp add: GetWithRetry_def)
qed

text \<open>
  The claim's bound fails: with \<open>N = 1\<close> and a dial that keeps failing, \<open>p.Get()\<close> is called
  twice.
\<close>

theorem GetWithRetry_counterexample:
  "attempts (snd (GetWithRetry (\<lambda>i. Inl (ErrorsNew ''connection refused'')) 1 100)) = 2"
  by (simp add: GetWithRetry_def GetWithRetry_loop.simps attempts_def)

theorem GetWithRetry_attempts_witness:
  "GetWithRetry (\<lambda>i. if i < 2 then Inl (ErrorsNew ''connection refused'') else Inr 7) 3 100 =
     ((Some 7, None), [CallGet, Sleep 100, CallGet, Sleep 200, CallGet]) \<and>
   GetWithRetry (\<lambda>i. if i < 1 then Inl (ErrorsNew ''connection refused'') else Inl ErrPoolExhausted) 3 100 =
     ((None, Some ErrPoolExhausted), [CallGet, Sleep 100, CallGet]) \<and>
   GetWithRetry (\<lambda>i. Inl (ErrorsNew ''connection refused'')) 2 100 =
     ((None, Some (ErrorsNew ''connection refused'')), [CallGet, Sleep 100, CallGet, Sleep 200, CallGet]) \<and>
   attempts (snd (GetWithRetry (\<lambda>i. Inl (ErrorsNew ''connection refused'')) 2 100)) \<le> 3"
  using GetWithRetry_attempts [where pGet = "\<lambda>i. if i < 2 then Inl (ErrorsNew ''connection refused'') else Inr 7"
      and N = 3 and d = 100, THEN conjunct2, THEN conjunct2, THEN spec, of 2]
    GetWithRetry_attempts [where pGet = "\<lambda>i. if i < 1 then Inl (ErrorsNew ''connection refused'') else Inl ErrPoolExhausted"
      and N = 3 and d = 100, THEN conjunct2, THEN conjunct2, THEN spec, of 1]
    GetWithRetry_attempts [where pGet = "\<lambda>i. Inl (ErrorsNew ''connection refused'')"
      and N = 2 and d = 100, THEN conjunct2, THEN conjunct2, THEN spec, of 2]
    GetWithRetry_attempts [where pGet = "\<lambda>i. Inl (ErrorsNew ''connection refused'')"
      and N = 2 and d = 100, THEN conjunct1]
  by (simp add: terminal_def backoff_def upt_conv_Cons)


section \<open>Theorems: connection pool counters\<close>

declare Get.simps [simp del]

lemma sint_word32_of_nat:
  "n < 2 ^ 31 \<Longrightarrow> sint (word_of_nat n :: 32 word) = int n"
proof -
  assume "n < 2 ^ 31"
  then have "int n < 2 ^ 31" by simp
  have "sint (word_of_nat n :: 32 word) = sint (word_of_int (int n) :: 32 word)" by simp
  also have "\<dots> = signed_take_bit 31 (int n)" by (simp only: sint_sbintrunc') simp
  also have "\<dots> = int n"
    by (rule signed_take_bit_int_eq_self) (use \<open>int n < 2 ^ 31\<close> in auto)
  finally show ?thesis .
qed

lemma sint_word32_upper: "sint (w :: 32 word) < 2 ^ 31"
  using sint_lt[of w] by simp

lemma sint_limit_le: "0 < m \<Longrightarrow> sint (word_of_int m :: 32 word) \<le> m"
  by (simp only: sint_sbintrunc' signed_take_bit_int_less_eq_self_iff) simp

lemma Get_config:
  "Get dial p = (res, p') \<Longrightarrow> maxActive p' = maxActive p \<and> closed p' = closed p \<and> maxIdle p' = maxIdle p"
proof (induction dial p rule: Get.induct)
  case (1 dial p)
  then show ?case
    by (subst (asm) (2) Get.simps) (auto split: if_splits list.splits sum.splits option.splits)
qed

lemma Get_counted:
  "Get dial p = (res, p') \<Longrightarrow> counted p n \<Longrightarrow> counted p' (n + got res)"
proof (induction dial p arbitrary: n rule: Get.induct)
  case (1 dial p)
  show ?case
  proof (cases "closed p")
    case True
    then show ?thesis using "1.prems" by (subst (asm) Get.simps) (auto simp: got_def)
  next
    case False
    show ?thesis
    proof (cases "idleConns p")
      case Nil
      then show ?thesis using "1.prems" False
        by (subst (asm) Get.simps) (auto simp: got_def counted_def split: if_splits sum.splits)
    next
      case (Cons conn rest)
      show ?thesis
      proof (cases "testOnGet p \<and> (case testConn p of None \<Rightarrow> False | Some t \<Rightarrow> t conn \<noteq> None)")
        case True
        have g: "Get dial (p\<lparr>idleConns := rest, activeNum := activeNum p - 1\<rparr>) = (res, p')"
          using "1.prems"(1) False Cons True by (subst (asm) Get.simps) simp
        have c: "counted (p\<lparr>idleConns := rest, activeNum := activeNum p - 1\<rparr>) n"
          using "1.prems"(2) Cons by (simp add: counted_def)
        show ?thesis using "1.IH"[OF False Cons True g c] .
      next
        case F: False
        then show ?thesis using "1.prems" False Cons
          by (subst (asm) Get.simps) (auto simp: got_def counted_def)
      qed
    qed
  qed
qed

lemma Get_bounded:
  "Get dial p = (res, p') \<Longrightarrow> counted p n \<Longrightarrow> bounded p n \<Longrightarrow> bounded p' (n + got res)"
proof (induction dial p arbitrary: n rule: Get.induct)
  case (1 dial p)
  show ?case
  proof (cases "closed p")
    case True
    then show ?thesis using "1.prems" by (subst (asm) Get.simps) (auto simp: got_def)
  next
    case False
    show ?thesis
    proof (cases "idleConns p")
      case Nil
      show ?thesis
      proof (cases "maxActive p > 0")
        case unl: False
        have "maxActive p' = maxActive p" using Get_config[OF "1.prems"(1)] by simp
        then show ?thesis using unl by (simp add: bounded_def)
      next
        case lim: True
        let ?t = "sint (word_of_int (maxActive p) :: 32 word)"
        have t: "?t < 2 ^ 31" using sint_word32_upper by blast
        have le: "int n \<le> max 0 ?t" using "1.prems"(3) lim Nil by (simp add: bounded_def)
        then have n31: "n < 2 ^ 31" using t by auto
        have act: "sint (activeNum p) = int n"
          using "1.prems"(2) Nil sint_word32_of_nat[OF n31] by (simp add: counted_def)
        show ?thesis using "1.prems"(1) False Nil lim act le
          by (subst (asm) Get.simps) (auto simp: got_def bounded_def split: if_splits sum.splits)
      qed
    next
      case (Cons conn rest)
      show ?thesis
      proof (cases "testOnGet p \<and> (case testConn p of None \<Rightarrow> False | Some t \<Rightarrow> t conn \<noteq> None)")
        case True
        have g: "Get dial (p\<lparr>idleConns := rest, activeNum := activeNum p - 1\<rparr>) = (res, p')"
          using "1.prems"(1) False Cons True by (subst (asm) Get.simps) simp
        have c: "counted (p\<lparr>idleConns := rest, activeNum := activeNum p - 1\<rparr>) n"
          using "1.prems"(2) Cons by (simp add: counted_def)
        have b: "bounded (p\<lparr>idleConns := rest, activeNum := activeNum p - 1\<rparr>) n"
          using "1.prems"(3) Cons by (auto simp add: bounded_def)
        show ?thesis using "1.IH"[OF False Cons True g c b] .
      next
        case F: False
        then show ?thesis using "1.prems" False Cons
          by (subst (asm) Get.simps) (auto simp: got_def bounded_def)
      qed
    qed
  qed
qed

lemma step_Get_inv: "pool_inv s \<Longrightarrow> pool_inv (step (OpGet dial) s)"
proof -
  assume a: "pool_inv s"
  obtain p leased where s: "s = (p, leased)" by (cases s)
  obtain res p' where g: "Get dial p = (res, p')" by (cases "Get dial p")
  have "counted p' (length leased + got res)" "bounded p' (length leased + got res)"
    using Get_counted[OF g] Get_bounded[OF g] a s by (auto simp: pool_inv_def)
  then show ?thesis using s g by (cases res) (auto simp: pool_inv_def got_def)
qed

lemma step_Put_inv:
  "pool_inv s \<Longrightarrow> (case conn of None \<Rightarrow> True | Some c \<Rightarrow> c \<in> set (snd s)) \<Longrightarrow> pool_inv (step (OpPut conn) s)"
proof -
  assume a: "pool_inv s" and h: "case conn of None \<Rightarrow> True | Some c \<Rightarrow> c \<in> set (snd s)"
  obtain p leased where s: "s = (p, leased)" by (cases s)
  show ?thesis
  proof (cases conn)
    case None
    then show ?thesis using a s by (simp add: Put_def pool_inv_def)
  next
    case (Some c)
    then have "c \<in> set leased" using h s by simp
    then have l: "length (remove1 c leased) = length leased - 1" "length leased > 0"
      by (auto simp: length_remove1 length_pos_if_in_set)
    then obtain k where k: "length leased = Suc k" by (cases "length leased") auto
    show ?thesis using a s Some l k
      by (auto simp: Put_def pool_inv_def counted_def bounded_def)
  qed
qed

lemma step_Close_inv: "pool_inv s \<Longrightarrow> pool_inv (step OpClose s)"
proof -
  assume a: "pool_inv s"
  obtain p leased where s: "s = (p, leased)" by (cases s)
  show ?thesis using a s
    by (auto simp: Close_def pool_inv_def counted_def bounded_def)
qed

lemma run_inv: "pool_inv s \<Longrightarrow> returns_held ops s \<Longrightarrow> pool_inv (run ops s)"
proof (induction ops arbitrary: s)
  case Nil
  then show ?case by simp
next
  case (Cons opn ops)
  show ?case
  proof (cases opn)
    case (OpGet dial)
    then show ?thesis using Cons step_Get_inv[of s dial] by simp
  next
    case (OpPut conn)
    then show ?thesis using Cons step_Put_inv[of s conn]
      by (cases conn) auto
  next
    case OpClose
    then show ?thesis using Cons step_Close_inv[of s] by simp
  qed
qed

lemma run_maxActive: "maxActive (fst (run ops s)) = maxActive (fst s)"
proof (induction ops arbitrary: s)
  case Nil
  then show ?case by simp
next
  case (Cons opn ops)
  obtain p leased where s: "s = (p, leased)" by (cases s)
  have "maxActive (fst (step opn s)) = maxActive (fst s)"
  proof (cases opn)
    case (OpGet dial)
    obtain res p' where g: "Get dial p = (res, p')" by (cases "Get dial p")
    show ?thesis using OpGet s g Get_config[OF g] by (cases res) auto
  next
    case (OpPut conn)
    then show ?thesis using s by (cases conn) (auto simp: Put_def)
  next
    case OpClose
    then show ?thesis using s by (auto simp: Close_def)
  qed
  then show ?case using Cons.IH[of "step opn s"] by simp
qed


lemma testPool_new: "NewConnPool (\<lambda>conn. None) testConfig = Inr testPool"
  by (simp add: NewConnPool_def testConfig_def testPool_def)

text \<open>
  C2, as the code has it. In every state a new pool reaches by \<open>Get\<close>, \<open>Put\<close> and \<open>Close\<close>,
  where every \<open>Put\<close> returns a connection its caller holds, the counter is the number of
  connections handed out and not returned plus the number of idle connections (modulo
  \<open>2 ^ 32\<close>). When \<open>maxActive\<close> is positive, and whenever that number is below \<open>2 ^ 31\<close>,
  the active count is exactly that number and is not negative; when \<open>maxActive\<close> is
  positive it does not exceed \<open>maxActive\<close>.
\<close>

theorem ConnPool_active_count:
  assumes "NewConnPool probe config = Inr p0"
    and "returns_held ops (p0, [])"
    and "run ops (p0, []) = (p, leased)"
  shows "activeNum p = word_of_nat (length leased + IdleCount p) \<and>
         (0 < maxActive p \<longrightarrow>
            ActiveCount p = int (length leased + IdleCount p) \<and>
            0 \<le> ActiveCount p \<and> ActiveCount p \<le> maxActive p) \<and>
         (length leased + IdleCount p < 2 ^ 31 \<longrightarrow>
            ActiveCount p = int (length leased + IdleCount p) \<and> 0 \<le> ActiveCount p)"
proof -
  have init: "pool_inv (p0, [])"
    using assms(1) by (auto simp: NewConnPool_def pool_inv_def counted_def bounded_def split: if_splits)
  have inv: "pool_inv (p, leased)"
    using run_inv[OF init assms(2)] assms(3) by simp
  let ?n = "length leased + length (idleConns p)"
  have c: "activeNum p = word_of_nat ?n" using inv by (simp add: pool_inv_def counted_def)
  have small: "?n < 2 ^ 31 \<Longrightarrow> ActiveCount p = int ?n \<and> 0 \<le> ActiveCount p"
    using c sint_word32_of_nat[of ?n] by (simp add: ActiveCount_def)
  have lim: "ActiveCount p = int ?n \<and> 0 \<le> ActiveCount p \<and> ActiveCount p \<le> maxActive p" if m: "0 < maxActive p"
  proof -
    let ?t = "sint (word_of_int (maxActive p) :: 32 word)"
    have b: "int ?n \<le> max 0 ?t" using inv m by (simp add: pool_inv_def bounded_def)
    have "?t < 2 ^ 31" using sint_word32_upper by blast
    then have "?n < 2 ^ 31" using b by auto
    moreover have "?t \<le> maxActive p" using sint_limit_le[OF m] .
    ultimately show ?thesis using small b m by auto
  qed
  show ?thesis unfolding IdleCount_def using c small lim by blast
qed

text \<open>
  The claim's equation fails: after one \<open>Get\<close> and the \<open>Put\<close> of its connection no
  connection is handed out, and the active count is 1 (the connection is idle).
\<close>

theorem ConnPool_active_count_counterexample:
  "returns_held [OpGet (Inr 1), OpPut (Some 1)] (testPool, []) \<and>
   ActiveCount (fst (run [OpGet (Inr 1), OpPut (Some 1)] (testPool, []))) = 1 \<and>
   length (snd (run [OpGet (Inr 1), OpPut (Some 1)] (testPool, []))) = 0"
  by (simp add: testPool_def Get.simps Put_def ActiveCount_def)

theorem ConnPool_active_count_witness:
  "run [OpGet (Inr 1), OpGet (Inr 2), OpPut (Some 1), OpGet (Inr 3)] (testPool, []) =
     (testPool\<lparr>activeNum := 2\<rparr>, [1, 2]) \<and>
   ActiveCount (testPool\<lparr>activeNum := 2\<rparr>) = 2 \<and>
   ActiveCount (testPool\<lparr>activeNum := 2\<rparr>) \<le> 5"
  using ConnPool_active_count [where probe = "\<lambda>conn. None" and config = testConfig and p0 = testPool
      and ops = "[OpGet (Inr 1), OpGet (Inr 2), OpPut (Some 1), OpGet (Inr 3)]"
      and p = "testPool\<lparr>activeNum := 2\<rparr>" and leased = "[1, 2]"]
    testPool_new
  by (simp add: testPool_def Get.simps Put_def IdleCount_def ActiveCount_def)



section \<open>Lemmas: what the parser consumes\<close>









lemma suffix_chain: "suffix xs ys \<Longrightarrow> suffix ys zs \<Longrightarrow> suffix xs zs"
  by (rule suffix_order.order_trans)







section \<open>Theorems: codec\<close>




text \<open>
  C1. \<open>DecodeResponse\<close> checks only that one of result and error is there: a response that
  carries both is accepted, with both fields populated.
\<close>

theorem DecodeResponse_result_and_error:
  \<open>DecodeResponse ''{"jsonrpc":"2.0","result":1,"error":{"code":-32603,"message":"Internal error"},"id":1}'' =
     Inr \<lparr>Jsonrpc_resp = ''2.0'', Result = Some ''1'',
          Error_resp = Some \<lparr>Code = - 32603, Message = ''Internal error'', Data = VNil\<rparr>,
          ID_resp = VFloat64 (Float64 1 0)\<rparr>\<close>
  by (simp add: json_eval codec_eval)

lemma DecodeResponse_some_populated:
  "DecodeResponse data = Inr resp \<Longrightarrow>
     Jsonrpc_resp resp = ''2.0'' \<and> (Result resp \<noteq> None \<or> Error_resp resp \<noteq> None)"
  by (auto simp: DecodeResponse_def JSONRPCVersion_def split: if_splits sum.splits)


section \<open>Theorems: server request processing\<close>











section \<open>Theorems: client response handling\<close>



end
